theory Spec2Isabelle
  imports Main "HOL-Library.Word"
begin

unbundle bit_operations_syntax

section \<open>Strings and bytes\<close>

text \<open>
  A Python \<open>str\<close> is represented by the bytes of its UTF-8 encoding, one \<open>char\<close> per
  byte. Concatenation, equality and emptiness of strings are concatenation, equality and
  emptiness of these byte sequences, so the f-strings, the \<open>==\<close>/\<open>!=\<close> tests and the
  \<open>not key\<close> test of the source read the same on the representation, and
  \<open>s.encode()\<close> only changes the type. A \<open>str\<close> holding a lone surrogate has no UTF-8
  encoding and hence no representation here: \<open>encode\<close> raises for it, outside the model.
\<close>

type_synonym byte = "8 word"
type_synonym u32 = "32 word"

definition encode :: "string \<Rightarrow> byte list" where
  "encode s = map (\<lambda>c. of_char c) s"

definition hexdigit :: "nat \<Rightarrow> char" where
  "hexdigit n = ''0123456789abcdef'' ! (n mod 16)"

definition hex_byte :: "byte \<Rightarrow> string" where
  "hex_byte b = [hexdigit (unat b div 16), hexdigit (unat b mod 16)]"

text \<open>\<open>bytes.hex()\<close> and \<open>binascii.hexlify\<close>: two lower-case hex digits per byte.\<close>

definition hexlify :: "byte list \<Rightarrow> string" where
  "hexlify bs = concat (map hex_byte bs)"

subsection \<open>Decimal rendering of integers\<close>

text \<open>\<open>f"{i}"\<close> of an \<open>int\<close> is \<open>str(i)\<close>: a minus sign for a negative number, then the
  decimal digits without leading zeros.\<close>

definition digit_char :: "nat \<Rightarrow> char" where
  "digit_char d = ''0123456789'' ! (d mod 10)"

function digits :: "nat \<Rightarrow> string" where
  "digits n = (if n < 10 then [digit_char n] else digits (n div 10) @ [digit_char (n mod 10)])"
  by pat_completeness auto
termination
  by (relation "measure id") auto

declare digits.simps [simp del]

definition str_int :: "int \<Rightarrow> string" where
  "str_int i = (if i < 0 then CHR ''-'' # digits (nat (- i)) else digits (nat i))"

section \<open>SHA-256\<close>

text \<open>\<open>hashlib.sha256\<close> is the hash of FIPS 180-4, written out here on 32-bit words.\<close>

definition rotr :: "nat \<Rightarrow> u32 \<Rightarrow> u32" where
  "rotr n x = drop_bit n x OR push_bit (32 - n) x"

definition Ch :: "u32 \<Rightarrow> u32 \<Rightarrow> u32 \<Rightarrow> u32" where
  "Ch x y z = (x AND y) XOR (NOT x AND z)"

definition Maj :: "u32 \<Rightarrow> u32 \<Rightarrow> u32 \<Rightarrow> u32" where
  "Maj x y z = (x AND y) XOR (x AND z) XOR (y AND z)"

definition bsig0 :: "u32 \<Rightarrow> u32" where
  "bsig0 x = rotr 2 x XOR rotr 13 x XOR rotr 22 x"

definition bsig1 :: "u32 \<Rightarrow> u32" where
  "bsig1 x = rotr 6 x XOR rotr 11 x XOR rotr 25 x"

definition ssig0 :: "u32 \<Rightarrow> u32" where
  "ssig0 x = rotr 7 x XOR rotr 18 x XOR drop_bit 3 x"

definition ssig1 :: "u32 \<Rightarrow> u32" where
  "ssig1 x = rotr 17 x XOR rotr 19 x XOR drop_bit 10 x"

definition K256 :: "u32 list" where
  "K256 =
    [0x428A2F98, 0x71374491, 0xB5C0FBCF, 0xE9B5DBA5, 0x3956C25B, 0x59F111F1, 0x923F82A4, 0xAB1C5ED5,
     0xD807AA98, 0x12835B01, 0x243185BE, 0x550C7DC3, 0x72BE5D74, 0x80DEB1FE, 0x9BDC06A7, 0xC19BF174,
     0xE49B69C1, 0xEFBE4786, 0x0FC19DC6, 0x240CA1CC, 0x2DE92C6F, 0x4A7484AA, 0x5CB0A9DC, 0x76F988DA,
     0x983E5152, 0xA831C66D, 0xB00327C8, 0xBF597FC7, 0xC6E00BF3, 0xD5A79147, 0x06CA6351, 0x14292967,
     0x27B70A85, 0x2E1B2138, 0x4D2C6DFC, 0x53380D13, 0x650A7354, 0x766A0ABB, 0x81C2C92E, 0x92722C85,
     0xA2BFE8A1, 0xA81A664B, 0xC24B8B70, 0xC76C51A3, 0xD192E819, 0xD6990624, 0xF40E3585, 0x106AA070,
     0x19A4C116, 0x1E376C08, 0x2748774C, 0x34B0BCB5, 0x391C0CB3, 0x4ED8AA4A, 0x5B9CCA4F, 0x682E6FF3,
     0x748F82EE, 0x78A5636F, 0x84C87814, 0x8CC70208, 0x90BEFFFA, 0xA4506CEB, 0xBEF9A3F7, 0xC67178F2]"

definition H256 :: "u32 list" where
  "H256 =
    [0x6A09E667, 0xBB67AE85, 0x3C6EF372, 0xA54FF53A, 0x510E527F, 0x9B05688C, 0x1F83D9AB, 0x5BE0CD19]"

text \<open>Padding: the byte \<open>0x80\<close>, zero bytes up to 56 modulo 64, and the length of the
  message in bits as a 64-bit big-endian number.\<close>

definition be64 :: "nat \<Rightarrow> byte list" where
  "be64 n =
     (let w = (word_of_nat n :: 64 word)
      in map (\<lambda>i. ucast (drop_bit (8 * i) w)) [7, 6, 5, 4, 3, 2, 1, 0])"

definition pad :: "byte list \<Rightarrow> byte list" where
  "pad m = m @ [0x80] @ replicate ((119 - length m mod 64) mod 64) 0 @ be64 (8 * length m)"

fun chunks :: "nat \<Rightarrow> 'a list \<Rightarrow> 'a list list" where
  "chunks n xs = (if n = 0 \<or> xs = [] then [] else take n xs # chunks n (drop n xs))"

declare chunks.simps [simp del]

definition be32 :: "byte list \<Rightarrow> u32" where
  "be32 bs = foldl (\<lambda>acc b. push_bit 8 acc OR ucast b) 0 bs"

definition be32_bytes :: "u32 \<Rightarrow> byte list" where
  "be32_bytes w = map (\<lambda>i. ucast (drop_bit (8 * i) w)) [3, 2, 1, 0]"

text \<open>The message schedule: sixteen words of the block, then forty-eight derived ones.\<close>

definition next_word :: "u32 list \<Rightarrow> u32" where
  "next_word w =
     (let t = length w
      in ssig1 (w ! (t - 2)) + w ! (t - 7) + ssig0 (w ! (t - 15)) + w ! (t - 16))"

definition schedule :: "byte list \<Rightarrow> u32 list" where
  "schedule blk = foldl (\<lambda>w _. w @ [next_word w]) (map be32 (chunks 4 blk)) [16 ..< 64]"

fun round256 :: "u32 list \<Rightarrow> u32 \<times> u32 \<Rightarrow> u32 list" where
  "round256 [a, b, c, d, e, f, g, h] (k, w) =
     (let t1 = h + bsig1 e + Ch e f g + k + w;
          t2 = bsig0 a + Maj a b c
      in [t1 + t2, a, b, c, d + t1, e, f, g])"
| "round256 s _ = s"

definition compress :: "u32 list \<Rightarrow> byte list \<Rightarrow> u32 list" where
  "compress h blk = map2 (+) h (foldl round256 h (zip K256 (schedule blk)))"

definition sha256 :: "byte list \<Rightarrow> byte list" where
  "sha256 m = concat (map be32_bytes (foldl compress H256 (chunks 64 (pad m))))"

definition sha256_hexdigest :: "byte list \<Rightarrow> string" where
  "sha256_hexdigest m = hexlify (sha256 m)"

section \<open>The helper \<open>challenge_hash.compute_hash\<close>\<close>

definition compute_hash :: "int \<Rightarrow> int \<Rightarrow> int \<Rightarrow> string \<Rightarrow> string" where
  "compute_hash alpha beta gamma nonce =
     (let s = str_int alpha @ ''-'' @ str_int beta @ ''-'' @ str_int gamma @ ''-'' @ nonce
      in sha256_hexdigest (encode s))"

section \<open>Random tokens\<close>

text \<open>
  \<open>secrets.token_bytes(16)\<close> reads the operating system's random source. Its result is an
  argument \<open>rnd\<close> of the handlers that draw a token: \<open>secrets.token_hex(16)\<close> is
  \<open>hexlify\<close> of these bytes, \<open>secrets.token_urlsafe(16)\<close> their URL-safe base64
  text with the trailing \<open>=\<close> stripped.
\<close>

definition b64char :: "nat \<Rightarrow> char" where
  "b64char n =
     ''ABCDEFGHIJKLMNOPQRSTUVWXYZabcdefghijklmnopqrstuvwxyz0123456789-_'' ! (n mod 64)"

fun urlsafe_b64encode :: "byte list \<Rightarrow> string" where
  "urlsafe_b64encode (x # y # z # bs) =
     (let n = unat x * 65536 + unat y * 256 + unat z
      in [b64char (n div 262144), b64char (n div 4096), b64char (n div 64), b64char n])
     @ urlsafe_b64encode bs"
| "urlsafe_b64encode [x, y] =
     (let n = unat x * 65536 + unat y * 256
      in [b64char (n div 262144), b64char (n div 4096), b64char (n div 64), CHR ''=''])"
| "urlsafe_b64encode [x] =
     (let n = unat x * 65536
      in [b64char (n div 262144), b64char (n div 4096), CHR ''='', CHR ''=''])"
| "urlsafe_b64encode [] = []"

definition rstrip :: "char \<Rightarrow> string \<Rightarrow> string" where
  "rstrip c s = rev (dropWhile (\<lambda>x. x = c) (rev s))"

definition token_hex :: "byte list \<Rightarrow> string" where
  "token_hex rnd = hexlify rnd"

definition token_urlsafe :: "byte list \<Rightarrow> string" where
  "token_urlsafe rnd = rstrip CHR ''='' (urlsafe_b64encode rnd)"

section \<open>The challenge endpoints of \<open>main.py\<close>\<close>

text \<open>
  The handlers are the bodies of the decorated functions. The rate limiter of the
  decorators answers before a body runs and is not part of them. \<open>ip\<close> is the value of
  \<open>get_remote_address(request)\<close>. The module globals \<open>NONCES\<close> and \<open>KEYS\<close> are the
  store; every handler returns its outcome together with the store it leaves behind, an
  exception leaving the store as it was when raised.
\<close>

datatype error = HTTPException nat string | KeyError string

type_synonym payload = "(string \<times> string) list"

record store =
  NONCES :: "string \<rightharpoonup> string"
  KEYS :: "string \<rightharpoonup> string"

definition initial_store :: store where
  "initial_store = \<lparr>NONCES = Map.empty, KEYS = Map.empty\<rparr>"

definition SECRET_NUMBERS :: "(string \<times> int) list" where
  "SECRET_NUMBERS = [(''alpha'', 7), (''beta'', 13), (''gamma'', 21)]"

text \<open>\<open>d[k]\<close> raises \<open>KeyError\<close> for a missing key; \<open>sum(d.values())\<close> adds from 0.\<close>

definition getitem :: "(string \<times> int) list \<Rightarrow> string \<Rightarrow> error + int" where
  "getitem d k = (case map_of d k of None \<Rightarrow> Inl (KeyError k) | Some v \<Rightarrow> Inr v)"

definition py_sum :: "int list \<Rightarrow> int" where
  "py_sum xs = foldl (+) 0 xs"

definition dict_values :: "(string \<times> int) list \<Rightarrow> int list" where
  "dict_values d = map snd d"

record ChallengeSubmission =
  result :: int

record HashSubmission =
  nonce :: string
  hash :: string

definition challenge_submit :: "store \<Rightarrow> ChallengeSubmission \<Rightarrow> (error + payload) \<times> store" where
  "challenge_submit st data =
     (let correct_value = py_sum (dict_values SECRET_NUMBERS)
      in if result data = correct_value
         then (Inr [(''status'', ''WIN''),
                    (''message'', [CHR 0xF0, CHR 0x9F, CHR 0x8E, CHR 0x89] @
                       '' Congratulations! You solved the first API challenge!''),
                    (''prize'', ''Access granted to the second endpoint''),
                    (''next'', ''/challenge/key/start'')], st)
         else (Inl (HTTPException 400 ''Incorrect result. Try again.''), st))"

definition challenge_key_start :: "store \<Rightarrow> string \<Rightarrow> byte list \<Rightarrow> (error + payload) \<times> store" where
  "challenge_key_start st ip rnd =
     (let n = token_hex rnd;
          st' = st\<lparr>NONCES := (NONCES st)(ip \<mapsto> n)\<rparr>
      in (Inr [(''step'', ''hash''),
               (''nonce'', n),
               (''instructions'', ''Compute SHA256 of '' @ [CHR 0x27] @ ''alpha-beta-gamma-<nonce>'' @
                  [CHR 0x27] @ '' and POST to /challenge/key/hash'')], st'))"

text \<open>Lines 288 and 289 of the handler: the string to hash and its digest.\<close>

definition expected_hash :: "string \<Rightarrow> error + string" where
  "expected_hash n =
     (case getitem SECRET_NUMBERS ''alpha'' of Inl e \<Rightarrow> Inl e | Inr a \<Rightarrow>
      case getitem SECRET_NUMBERS ''beta'' of Inl e \<Rightarrow> Inl e | Inr b \<Rightarrow>
      case getitem SECRET_NUMBERS ''gamma'' of Inl e \<Rightarrow> Inl e | Inr c \<Rightarrow>
      (let s = str_int a @ ''-'' @ str_int b @ ''-'' @ str_int c @ ''-'' @ n
       in Inr (sha256_hexdigest (encode s))))"

definition challenge_key_hash ::
  "store \<Rightarrow> string \<Rightarrow> HashSubmission \<Rightarrow> byte list \<Rightarrow> (error + payload) \<times> store" where
  "challenge_key_hash st ip data rnd =
     (if NONCES st ip \<noteq> Some (nonce data)
      then (Inl (HTTPException 400 ''Invalid or expired nonce''), st)
      else case expected_hash (nonce data) of
             Inl e \<Rightarrow> (Inl e, st)
           | Inr expected \<Rightarrow>
               if hash data \<noteq> expected
               then (Inl (HTTPException 400 ''Incorrect hash''), st)
               else (let key = token_urlsafe rnd;
                         st' = st\<lparr>KEYS := (KEYS st)(ip \<mapsto> key)\<rparr>
                     in (Inr [(''status'', ''OK''),
                              (''next'', ''/challenge/prize''),
                              (''key_hint'', ''Use query param ?key=...''),
                              (''key'', key)], st')))"

text \<open>\<open>not key\<close> holds for \<open>None\<close> and for the empty string.\<close>

definition falsy :: "string option \<Rightarrow> bool" where
  "falsy key = (case key of None \<Rightarrow> True | Some k \<Rightarrow> k = [])"

definition challenge_prize :: "store \<Rightarrow> string \<Rightarrow> string option \<Rightarrow> (error + payload) \<times> store" where
  "challenge_prize st ip key =
     (if falsy key \<or> KEYS st ip \<noteq> key
      then (Inl (HTTPException 403 ''Valid key required''), st)
      else (Inr [(''prize'', ''API Master Badge''), (''reward'', ''Certificate'')], st))"

text \<open>The error kinds of the specification, as the exceptions the handlers raise.\<close>

definition IncorrectResult :: error where
  "IncorrectResult = HTTPException 400 ''Incorrect result. Try again.''"

definition InvalidNonce :: error where
  "InvalidNonce = HTTPException 400 ''Invalid or expired nonce''"

definition IncorrectHash :: error where
  "IncorrectHash = HTTPException 400 ''Incorrect hash''"

definition InvalidKey :: error where
  "InvalidKey = HTTPException 403 ''Valid key required''"

subsection \<open>Sequences of requests\<close>

datatype request =
  Submit string ChallengeSubmission
| KeyStart string "byte list"
| KeyHash string HashSubmission "byte list"
| Prize string "string option"

fun handle :: "store \<Rightarrow> request \<Rightarrow> (error + payload) \<times> store" where
  "handle st (Submit ip data) = challenge_submit st data"
| "handle st (KeyStart ip rnd) = challenge_key_start st ip rnd"
| "handle st (KeyHash ip data rnd) = challenge_key_hash st ip data rnd"
| "handle st (Prize ip key) = challenge_prize st ip key"

definition run :: "store \<Rightarrow> request list \<Rightarrow> store" where
  "run st reqs = foldl (\<lambda>s r. snd (handle s r)) st reqs"

text \<open>The requests of the client \<open>ip\<close> that submit a sum, and those that start the key step.\<close>

fun submits_sum :: "string \<Rightarrow> request \<Rightarrow> bool" where
  "submits_sum ip (Submit c data) = (c = ip)"
| "submits_sum ip _ = False"

fun starts_key :: "string \<Rightarrow> request \<Rightarrow> bool" where
  "starts_key ip (KeyStart c rnd) = (c = ip)"
| "starts_key ip _ = False"

subsection \<open>The specification's reading of the hash\<close>

text \<open>Following the specification's words: the decimal renderings of the three numbers and
  the nonce, joined by hyphens (Python's \<open>"-".join\<close>), encoded, hashed and hex-encoded.\<close>

fun join :: "string \<Rightarrow> string list \<Rightarrow> string" where
  "join sep [] = []"
| "join sep [x] = x"
| "join sep (x # y # ys) = x @ sep @ join sep (y # ys)"





subsection \<open>Requests that issue a key\<close>

text \<open>\<open>key_issued ip st r\<close>: the request \<open>r\<close>, handled in the store \<open>st\<close>, is a
  successful SubmitHash of the client \<open>ip\<close>. \<open>no_key_issued ip st reqs\<close>: none of the
  requests \<open>reqs\<close>, handled one after the other from \<open>st\<close>, is one.\<close>

fun key_issued :: "string \<Rightarrow> store \<Rightarrow> request \<Rightarrow> bool" where
  "key_issued ip st (KeyHash c d rnd) =
     (c = ip \<and> \<not> isl (fst (challenge_key_hash st c d rnd)))"
| "key_issued ip st _ = False"

fun no_key_issued :: "string \<Rightarrow> store \<Rightarrow> request list \<Rightarrow> bool" where
  "no_key_issued ip st [] = True"
| "no_key_issued ip st (r # rs) =
     (\<not> key_issued ip st r \<and> no_key_issued ip (snd (handle st r)) rs)"

section \<open>Basic facts\<close>

lemma str_int_7: "str_int 7 = ''7''"
  by (simp add: str_int_def digits.simps digit_char_def)

lemma str_int_13: "str_int 13 = ''13''"
  by (simp add: str_int_def digits.simps digit_char_def)

lemma str_int_21: "str_int 21 = ''21''"
  by (simp add: str_int_def digits.simps digit_char_def)

lemma getitem_secrets:
  "getitem SECRET_NUMBERS ''alpha'' = Inr 7"
  "getitem SECRET_NUMBERS ''beta'' = Inr 13"
  "getitem SECRET_NUMBERS ''gamma'' = Inr 21"
  by (simp_all add: getitem_def SECRET_NUMBERS_def)

lemma correct_value: "py_sum (dict_values SECRET_NUMBERS) = 41"
  by (simp add: py_sum_def dict_values_def SECRET_NUMBERS_def)

lemma expected_hash_eq: "expected_hash n = Inr (sha256_hexdigest (encode (''7-13-21-'' @ n)))"
  by (simp add: expected_hash_def getitem_secrets str_int_7 str_int_13 str_int_21)

text \<open>The specification's example: nonce \<open>abc123\<close> hashes the string \<open>7-13-21-abc123\<close>.\<close>

lemma hash_input_example:
  "join ''-'' [str_int 7, str_int 13, str_int 21, ''abc123''] = ''7-13-21-abc123''"
  by (simp add: str_int_7 str_int_13 str_int_21)

subsection \<open>The decimal rendering reads back\<close>








subsection \<open>Tokens\<close>




lemma b64char_in_alphabet:
  "b64char n \<in> set ''ABCDEFGHIJKLMNOPQRSTUVWXYZabcdefghijklmnopqrstuvwxyz0123456789-_''"
proof -
  have "n mod 64 < length ''ABCDEFGHIJKLMNOPQRSTUVWXYZabcdefghijklmnopqrstuvwxyz0123456789-_''"
    by simp
  then show ?thesis
    unfolding b64char_def by (rule nth_mem)
qed

lemma b64char_not_pad: "b64char n \<noteq> CHR ''=''"
  using b64char_in_alphabet [of n] by auto

text \<open>Sixteen bytes give twenty-two characters of the URL-safe alphabet and no padding.\<close>

lemma token_urlsafe_16:
  assumes "length rnd = 16"
  shows "length (token_urlsafe rnd) = 22
    \<and> set (token_urlsafe rnd)
        \<subseteq> set ''ABCDEFGHIJKLMNOPQRSTUVWXYZabcdefghijklmnopqrstuvwxyz0123456789-_''"
proof -
  from assms obtain b0 b1 b2 b3 b4 b5 b6 b7 b8 b9 b10 b11 b12 b13 b14 b15
    where rnd: "rnd = [b0, b1, b2, b3, b4, b5, b6, b7, b8, b9, b10, b11, b12, b13, b14, b15]"
    by (auto simp add: length_Suc_conv numeral_eq_Suc)
  have len: "length (token_urlsafe rnd) = 22"
    unfolding rnd token_urlsafe_def rstrip_def
    by (simp add: Let_def b64char_not_pad)
  have "set (token_urlsafe rnd) \<subseteq> range b64char"
    unfolding rnd token_urlsafe_def rstrip_def
    by (simp add: Let_def b64char_not_pad)
  with b64char_in_alphabet len show ?thesis
    by blast
qed

subsection \<open>The handlers by cases\<close>

lemma submit_cases:
  "challenge_submit st d =
     (if result d = 41
      then (Inr [(''status'', ''WIN''),
                 (''message'', [CHR 0xF0, CHR 0x9F, CHR 0x8E, CHR 0x89] @
                    '' Congratulations! You solved the first API challenge!''),
                 (''prize'', ''Access granted to the second endpoint''),
                 (''next'', ''/challenge/key/start'')], st)
      else (Inl IncorrectResult, st))"
  by (simp add: challenge_submit_def correct_value IncorrectResult_def)

lemma key_hash_cases:
  "challenge_key_hash st ip d rnd =
     (if NONCES st ip \<noteq> Some (nonce d) then (Inl InvalidNonce, st)
      else if hash d \<noteq> sha256_hexdigest (encode (''7-13-21-'' @ nonce d))
      then (Inl IncorrectHash, st)
      else (Inr [(''status'', ''OK''), (''next'', ''/challenge/prize''),
                 (''key_hint'', ''Use query param ?key=...''), (''key'', token_urlsafe rnd)],
            st\<lparr>KEYS := (KEYS st)(ip \<mapsto> token_urlsafe rnd)\<rparr>))"
  by (simp add: challenge_key_hash_def expected_hash_eq InvalidNonce_def IncorrectHash_def Let_def)

lemma prize_cases:
  "challenge_prize st ip key =
     (if key = None \<or> key = Some [] \<or> KEYS st ip \<noteq> key then (Inl InvalidKey, st)
      else (Inr [(''prize'', ''API Master Badge''), (''reward'', ''Certificate'')], st))"
  by (auto simp add: challenge_prize_def falsy_def InvalidKey_def split: option.splits)

lemma key_start_eq:
  "challenge_key_start st ip rnd =
     (Inr [(''step'', ''hash''), (''nonce'', token_hex rnd),
           (''instructions'', ''Compute SHA256 of '' @ [CHR 0x27] @ ''alpha-beta-gamma-<nonce>'' @
              [CHR 0x27] @ '' and POST to /challenge/key/hash'')],
      st\<lparr>NONCES := (NONCES st)(ip \<mapsto> token_hex rnd)\<rparr>)"
  by (simp add: challenge_key_start_def Let_def)

lemma errors_distinct: "InvalidNonce \<noteq> IncorrectHash"
  by (simp add: InvalidNonce_def IncorrectHash_def)

subsection \<open>Which requests write which entry\<close>

lemma handle_keeps_nonce:
  "\<not> starts_key ip r \<Longrightarrow> NONCES (snd (handle st r)) ip = NONCES st ip"
  by (cases r) (auto simp add: submit_cases key_hash_cases prize_cases key_start_eq)

lemma run_keeps_nonce:
  "\<forall>r\<in>set reqs. \<not> starts_key ip r \<Longrightarrow> NONCES (run st reqs) ip = NONCES st ip"
proof (induction reqs arbitrary: st)
  case Nil
  then show ?case by (simp add: run_def)
next
  case (Cons r reqs)
  have "run st (r # reqs) = run (snd (handle st r)) reqs"
    by (simp add: run_def)
  with Cons show ?case
    by (simp add: handle_keeps_nonce)
qed

lemma handle_keeps_key:
  "\<not> key_issued ip st r \<Longrightarrow> KEYS (snd (handle st r)) ip = KEYS st ip"
  by (cases r) (auto simp add: submit_cases key_hash_cases prize_cases key_start_eq)

lemma run_keeps_key:
  "no_key_issued ip st reqs \<Longrightarrow> KEYS (run st reqs) ip = KEYS st ip"
proof (induction reqs arbitrary: st)
  case Nil
  then show ?case by (simp add: run_def)
next
  case (Cons r reqs)
  have "run st (r # reqs) = run (snd (handle st r)) reqs"
    by (simp add: run_def)
  with Cons show ?case
    by (simp add: handle_keeps_key)
qed

section \<open>The claims\<close>



text \<open>
  C2. For every nonce string n, the expected hash the server computes in
  \<open>challenge_key_hash\<close> from the secrets 7, 13, 21 and the supplied nonce is the value of
  the helper's \<open>compute_hash 7 13 21 n\<close>.
\<close>

theorem expected_hash_agrees:
  "expected_hash n = Inr (compute_hash 7 13 21 n)"
  by (simp add: expected_hash_def compute_hash_def getitem_secrets)

theorem expected_hash_agrees_witness:
  "expected_hash ''abc123'' = Inr (compute_hash 7 13 21 ''abc123'')"
  using expected_hash_agrees [of "''abc123''"] by simp

text \<open>
  C3, as stated, ends with: SubmitHash succeeds iff the supplied hash equals the SHA-256 of
  \<open>7-13-21-<issued nonce>\<close>. A client that holds the nonce \<open>aa\<close>, supplies the nonce
  \<open>bb\<close> and the hash of \<open>7-13-21-aa\<close> is refused with InvalidNonce although its hash
  is the one of the issued nonce.
\<close>

theorem submit_hash_iff_counterexample:
  "\<not> (\<not> isl (fst (challenge_key_hash
            \<lparr>NONCES = [''10.0.0.1'' \<mapsto> ''aa''], KEYS = Map.empty\<rparr> ''10.0.0.1''
            \<lparr>nonce = ''bb'', hash = sha256_hexdigest (encode ''7-13-21-aa'')\<rparr>
            (replicate 16 0)))
       \<longleftrightarrow> hash \<lparr>nonce = ''bb'', hash = sha256_hexdigest (encode ''7-13-21-aa'')\<rparr>
            = sha256_hexdigest (encode (''7-13-21-'' @
                the (NONCES \<lparr>NONCES = [''10.0.0.1'' \<mapsto> ''aa''], KEYS = Map.empty\<rparr>
                       ''10.0.0.1''))))"
  by (simp add: key_hash_cases)

text \<open>
  C3, amended. For every client and every submission: SubmitHash fails with InvalidNonce
  iff the stored nonce of the client is absent or differs from the supplied one; when the
  nonce check passes it fails with IncorrectHash iff the supplied hash differs from the hex
  SHA-256 of \<open>7-13-21-<supplied nonce>\<close>; when both checks pass it stores the URL-safe
  token drawn for this request (22 characters of the URL-safe alphabet for 16 random
  bytes) under the client and returns it. It succeeds iff the
  supplied nonce is the stored one and the supplied hash is the SHA-256 of
  \<open>7-13-21-<that nonce>\<close>.
\<close>

theorem submit_hash_outcomes:
  "(fst (challenge_key_hash st ip d rnd) = Inl InvalidNonce
      \<longleftrightarrow> NONCES st ip \<noteq> Some (nonce d))
   \<and> (NONCES st ip = Some (nonce d) \<longrightarrow>
        (fst (challenge_key_hash st ip d rnd) = Inl IncorrectHash
           \<longleftrightarrow> hash d \<noteq> sha256_hexdigest (encode (''7-13-21-'' @ nonce d))))
   \<and> (NONCES st ip = Some (nonce d)
        \<and> hash d = sha256_hexdigest (encode (''7-13-21-'' @ nonce d)) \<longrightarrow>
        challenge_key_hash st ip d rnd =
          (Inr [(''status'', ''OK''), (''next'', ''/challenge/prize''),
                (''key_hint'', ''Use query param ?key=...''), (''key'', token_urlsafe rnd)],
           st\<lparr>KEYS := (KEYS st)(ip \<mapsto> token_urlsafe rnd)\<rparr>))
   \<and> (\<not> isl (fst (challenge_key_hash st ip d rnd))
        \<longleftrightarrow> NONCES st ip = Some (nonce d)
            \<and> hash d = sha256_hexdigest (encode (''7-13-21-'' @ nonce d)))
   \<and> (length rnd = 16 \<longrightarrow>
        length (token_urlsafe rnd) = 22
        \<and> set (token_urlsafe rnd)
            \<subseteq> set ''ABCDEFGHIJKLMNOPQRSTUVWXYZabcdefghijklmnopqrstuvwxyz0123456789-_'')"
proof -
  have "length rnd = 16 \<longrightarrow>
        length (token_urlsafe rnd) = 22
        \<and> set (token_urlsafe rnd)
            \<subseteq> set ''ABCDEFGHIJKLMNOPQRSTUVWXYZabcdefghijklmnopqrstuvwxyz0123456789-_''"
    using token_urlsafe_16 [of rnd] by blast
  then show ?thesis
    by (simp add: key_hash_cases errors_distinct errors_distinct [symmetric])
qed

theorem submit_hash_outcomes_witness:
  "NONCES \<lparr>NONCES = [''10.0.0.1'' \<mapsto> ''abc123''], KEYS = Map.empty\<rparr> ''10.0.0.1''
     = Some (nonce \<lparr>nonce = ''abc123'', hash = sha256_hexdigest (encode ''7-13-21-abc123'')\<rparr>)
   \<and> hash \<lparr>nonce = ''abc123'', hash = sha256_hexdigest (encode ''7-13-21-abc123'')\<rparr>
     = sha256_hexdigest (encode (''7-13-21-'' @ ''abc123''))
   \<and> \<not> isl (fst (challenge_key_hash
         \<lparr>NONCES = [''10.0.0.1'' \<mapsto> ''abc123''], KEYS = Map.empty\<rparr> ''10.0.0.1''
         \<lparr>nonce = ''abc123'', hash = sha256_hexdigest (encode ''7-13-21-abc123'')\<rparr>
         (replicate 16 0)))
   \<and> length (replicate 16 (0 :: byte)) = 16
   \<and> length (token_urlsafe (replicate 16 0)) = 22"
  using submit_hash_outcomes
    [of "\<lparr>NONCES = [''10.0.0.1'' \<mapsto> ''abc123''], KEYS = Map.empty\<rparr>" "''10.0.0.1''"
        "\<lparr>nonce = ''abc123'', hash = sha256_hexdigest (encode ''7-13-21-abc123'')\<rparr>"
        "replicate 16 0"]
  by simp

text \<open>
  C4. For every integer claimedSum, SubmitSum succeeds iff claimedSum equals
  alpha + beta + gamma = 7 + 13 + 21 = 41, and otherwise fails with IncorrectResult, a 400
  client error; submitting 41 succeeds and submitting 40 fails.
\<close>

theorem submit_sum_outcome:
  "(\<not> isl (fst (challenge_submit st d)) \<longleftrightarrow> result d = 7 + 13 + 21)
   \<and> (result d \<noteq> 7 + 13 + 21 \<longrightarrow>
        fst (challenge_submit st d) = Inl (HTTPException 400 ''Incorrect result. Try again.''))
   \<and> IncorrectResult = HTTPException 400 ''Incorrect result. Try again.''
   \<and> \<not> isl (fst (challenge_submit st \<lparr>result = 41\<rparr>))
   \<and> fst (challenge_submit st \<lparr>result = 40\<rparr>) = Inl IncorrectResult"
  by (simp add: submit_cases IncorrectResult_def)

theorem submit_sum_outcome_witness:
  "result \<lparr>result = 40\<rparr> \<noteq> 7 + 13 + 21
   \<and> fst (challenge_submit initial_store \<lparr>result = 40\<rparr>)
       = Inl (HTTPException 400 ''Incorrect result. Try again.'')
   \<and> \<not> isl (fst (challenge_submit initial_store \<lparr>result = 41\<rparr>))"
  using submit_sum_outcome [of initial_store "\<lparr>result = 40\<rparr>"] by simp

text \<open>
  C5. For every client and every supplied key, ClaimPrize fails with InvalidKey, a 403
  error, iff the key is absent, empty or different from the key stored for that client;
  hence it fails for an empty key, for a key stored only for another client, and while no
  key is stored for the client, as after any requests from the start of the server none of
  which is a successful SubmitHash of the client. Otherwise it returns the reward payload.
\<close>

theorem claim_prize_outcome:
  "(fst (challenge_prize st ip key) = Inl InvalidKey
      \<longleftrightarrow> key = None \<or> key = Some [] \<or> KEYS st ip \<noteq> key)
   \<and> (\<not> (key = None \<or> key = Some [] \<or> KEYS st ip \<noteq> key) \<longrightarrow>
        fst (challenge_prize st ip key)
          = Inr [(''prize'', ''API Master Badge''), (''reward'', ''Certificate'')])
   \<and> InvalidKey = HTTPException 403 ''Valid key required''
   \<and> fst (challenge_prize st ip (Some [])) = Inl InvalidKey
   \<and> (KEYS st other = Some k \<and> KEYS st ip \<noteq> Some k \<longrightarrow>
        fst (challenge_prize st ip (Some k)) = Inl InvalidKey)
   \<and> (KEYS st ip = None \<longrightarrow> fst (challenge_prize st ip key) = Inl InvalidKey)
   \<and> (no_key_issued ip initial_store reqs \<longrightarrow>
        fst (challenge_prize (run initial_store reqs) ip key) = Inl InvalidKey)"
proof -
  have "no_key_issued ip initial_store reqs \<longrightarrow>
        fst (challenge_prize (run initial_store reqs) ip key) = Inl InvalidKey"
  proof
    assume "no_key_issued ip initial_store reqs"
    then have "KEYS (run initial_store reqs) ip = KEYS initial_store ip"
      by (rule run_keeps_key)
    then have "KEYS (run initial_store reqs) ip = None"
      by (simp add: initial_store_def)
    then show "fst (challenge_prize (run initial_store reqs) ip key) = Inl InvalidKey"
      by (auto simp add: prize_cases)
  qed
  then show ?thesis
    by (auto simp add: prize_cases InvalidKey_def)
qed

theorem claim_prize_outcome_witness:
  "fst (challenge_prize \<lparr>NONCES = Map.empty, KEYS = [''10.0.0.1'' \<mapsto> ''k1'']\<rparr>
          ''10.0.0.1'' (Some ''k1''))
     = Inr [(''prize'', ''API Master Badge''), (''reward'', ''Certificate'')]
   \<and> KEYS \<lparr>NONCES = Map.empty, KEYS = [''10.0.0.1'' \<mapsto> ''k1'']\<rparr> ''10.0.0.1'' = Some ''k1''
   \<and> KEYS \<lparr>NONCES = Map.empty, KEYS = [''10.0.0.1'' \<mapsto> ''k1'']\<rparr> ''10.0.0.2'' = None
   \<and> fst (challenge_prize \<lparr>NONCES = Map.empty, KEYS = [''10.0.0.1'' \<mapsto> ''k1'']\<rparr>
          ''10.0.0.2'' (Some ''k1''))
     = Inl InvalidKey
   \<and> no_key_issued ''10.0.0.1'' initial_store
        [KeyStart ''10.0.0.2'' (replicate 16 0),
         KeyHash ''10.0.0.2''
           \<lparr>nonce = token_hex (replicate 16 0),
              hash = sha256_hexdigest (encode (''7-13-21-'' @ token_hex (replicate 16 0)))\<rparr>
           (replicate 16 1)]
   \<and> fst (challenge_prize
         (run initial_store
            [KeyStart ''10.0.0.2'' (replicate 16 0),
             KeyHash ''10.0.0.2''
               \<lparr>nonce = token_hex (replicate 16 0),
                  hash = sha256_hexdigest (encode (''7-13-21-'' @ token_hex (replicate 16 0)))\<rparr>
               (replicate 16 1)])
         ''10.0.0.1'' (Some (token_urlsafe (replicate 16 1))))
     = Inl InvalidKey"
  using claim_prize_outcome
    [where ip = "''10.0.0.1''" and key = "Some (token_urlsafe (replicate 16 1))"
       and reqs = "[KeyStart ''10.0.0.2'' (replicate 16 0),
          KeyHash ''10.0.0.2''
            \<lparr>nonce = token_hex (replicate 16 0),
               hash = sha256_hexdigest (encode (''7-13-21-'' @ token_hex (replicate 16 0)))\<rparr>
            (replicate 16 1)]"]
    claim_prize_outcome
    [of "\<lparr>NONCES = Map.empty, KEYS = [''10.0.0.1'' \<mapsto> ''k1'']\<rparr>" "''10.0.0.1''"
        "Some ''k1''" "''10.0.0.2''" "''k1''"]
    claim_prize_outcome
    [of "\<lparr>NONCES = Map.empty, KEYS = [''10.0.0.1'' \<mapsto> ''k1'']\<rparr>" "''10.0.0.2''"
        "Some ''k1''" "''10.0.0.1''" "''k1''"]
  by simp




text \<open>
  C7, as stated: a client that made no SubmitSum call cannot pass the nonce check. A client
  whose only earlier request is the nonce-issuing step passes it, and its SubmitHash
  succeeds.
\<close>

theorem hash_without_sum_counterexample:
  "\<not> submits_sum ''10.0.0.1'' (KeyStart ''10.0.0.1'' (replicate 16 0))
   \<and> \<not> isl (fst (challenge_key_hash
         (run initial_store [KeyStart ''10.0.0.1'' (replicate 16 0)]) ''10.0.0.1''
         \<lparr>nonce = token_hex (replicate 16 0),
            hash = sha256_hexdigest (encode (''7-13-21-'' @ token_hex (replicate 16 0)))\<rparr>
         (replicate 16 1)))"
  by (simp add: run_def key_start_eq key_hash_cases initial_store_def)

text \<open>
  C7, amended. For every client, SubmitHash fails with InvalidNonce, whatever nonce and
  hash it supplies, if since the start of the server no nonce-issuing
  \<open>challenge_key_start\<close> request was made for that client; SubmitSum calls do not matter.
\<close>

theorem no_key_start_invalid_nonce:
  "\<forall>r\<in>set reqs. \<not> starts_key ip r \<Longrightarrow>
     fst (challenge_key_hash (run initial_store reqs) ip d rnd) = Inl InvalidNonce"
proof -
  assume "\<forall>r\<in>set reqs. \<not> starts_key ip r"
  then have "NONCES (run initial_store reqs) ip = NONCES initial_store ip"
    by (rule run_keeps_nonce)
  then have "NONCES (run initial_store reqs) ip = None"
    by (simp add: initial_store_def)
  then show ?thesis
    by (simp add: key_hash_cases)
qed

theorem no_key_start_invalid_nonce_witness:
  "\<not> starts_key ''10.0.0.1'' (Submit ''10.0.0.1'' \<lparr>result = 41\<rparr>)
   \<and> \<not> starts_key ''10.0.0.1'' (Prize ''10.0.0.1'' None)
   \<and> fst (challenge_key_hash
         (run initial_store [Submit ''10.0.0.1'' \<lparr>result = 41\<rparr>, Prize ''10.0.0.1'' None])
         ''10.0.0.1''
         \<lparr>nonce = ''abc123'', hash = sha256_hexdigest (encode ''7-13-21-abc123'')\<rparr>
         (replicate 16 0))
     = Inl InvalidNonce"
  using no_key_start_invalid_nonce
    [of "[Submit ''10.0.0.1'' \<lparr>result = 41\<rparr>, Prize ''10.0.0.1'' None]" "''10.0.0.1''"
        "\<lparr>nonce = ''abc123'', hash = sha256_hexdigest (encode ''7-13-21-abc123'')\<rparr>"
        "replicate 16 0"]
  by simp

text \<open>
  C8, as stated: after one successful ClaimPrize with a key a second ClaimPrize by the same
  client with the same key fails. The handler reads the key and does not delete it: the
  second claim succeeds.
\<close>

theorem key_reuse_counterexample:
  "\<not> isl (fst (challenge_prize \<lparr>NONCES = Map.empty, KEYS = [''10.0.0.1'' \<mapsto> ''k1'']\<rparr>
              ''10.0.0.1'' (Some ''k1'')))
   \<and> \<not> isl (fst (challenge_prize
         (snd (challenge_prize \<lparr>NONCES = Map.empty, KEYS = [''10.0.0.1'' \<mapsto> ''k1'']\<rparr>
                 ''10.0.0.1'' (Some ''k1'')))
         ''10.0.0.1'' (Some ''k1'')))"
  by (simp add: prize_cases)

text \<open>
  C8, amended. ClaimPrize never changes the store, so the key is not consumed: for every
  client and key, after one successful ClaimPrize a second ClaimPrize by the same client
  with the same key succeeds with the same payload.
\<close>

theorem claim_prize_repeatable:
  "snd (challenge_prize st ip key) = st
   \<and> (\<not> isl (fst (challenge_prize st ip key)) \<longrightarrow>
        fst (challenge_prize (snd (challenge_prize st ip key)) ip key)
          = fst (challenge_prize st ip key)
        \<and> \<not> isl (fst (challenge_prize (snd (challenge_prize st ip key)) ip key)))"
  by (simp add: prize_cases)

theorem claim_prize_repeatable_witness:
  "\<not> isl (fst (challenge_prize \<lparr>NONCES = Map.empty, KEYS = [''10.0.0.1'' \<mapsto> ''k1'']\<rparr>
              ''10.0.0.1'' (Some ''k1'')))
   \<and> fst (challenge_prize
         (snd (challenge_prize \<lparr>NONCES = Map.empty, KEYS = [''10.0.0.1'' \<mapsto> ''k1'']\<rparr>
                 ''10.0.0.1'' (Some ''k1'')))
         ''10.0.0.1'' (Some ''k1''))
     = Inr [(''prize'', ''API Master Badge''), (''reward'', ''Certificate'')]"
  using claim_prize_repeatable
    [of "\<lparr>NONCES = Map.empty, KEYS = [''10.0.0.1'' \<mapsto> ''k1'']\<rparr>" "''10.0.0.1''"
        "Some ''k1''"]
  by (simp add: prize_cases)

text \<open>
  C9. The nonce-issuing step changes only the entry of its client in \<open>NONCES\<close> and no
  entry of \<open>KEYS\<close>: every ClaimPrize has the same outcome after it as before, so a key
  issued to a client still claims the prize after the client's nonce is overwritten.
\<close>

theorem key_start_frame:
  "KEYS (snd (challenge_key_start st ip rnd)) = KEYS st
   \<and> (\<forall>c. c \<noteq> ip \<longrightarrow> NONCES (snd (challenge_key_start st ip rnd)) c = NONCES st c)
   \<and> (\<forall>c key. fst (challenge_prize (snd (challenge_key_start st ip rnd)) c key)
               = fst (challenge_prize st c key))
   \<and> (\<not> isl (fst (challenge_prize st ip key)) \<longrightarrow>
        \<not> isl (fst (challenge_prize (snd (challenge_key_start st ip rnd)) ip key)))"
  by (simp add: key_start_eq prize_cases)

theorem key_start_frame_witness:
  "\<not> isl (fst (challenge_prize
         \<lparr>NONCES = [''10.0.0.1'' \<mapsto> ''aa''], KEYS = [''10.0.0.1'' \<mapsto> ''k1'']\<rparr>
         ''10.0.0.1'' (Some ''k1'')))
   \<and> \<not> isl (fst (challenge_prize
         (snd (challenge_key_start
                 \<lparr>NONCES = [''10.0.0.1'' \<mapsto> ''aa''], KEYS = [''10.0.0.1'' \<mapsto> ''k1'']\<rparr>
                 ''10.0.0.1'' (replicate 16 0)))
         ''10.0.0.1'' (Some ''k1'')))"
  using key_start_frame
    [of "\<lparr>NONCES = [''10.0.0.1'' \<mapsto> ''aa''], KEYS = [''10.0.0.1'' \<mapsto> ''k1'']\<rparr>"
        "''10.0.0.1''" "replicate 16 0" "Some ''k1''"]
  by (simp add: prize_cases)

text \<open>
  C10. Whenever SubmitSum, SubmitHash or ClaimPrize fails, with whatever error, the store
  (\<open>NONCES\<close> and \<open>KEYS\<close>) it leaves is the store it found.
\<close>

theorem failure_leaves_store:
  "(isl (fst (challenge_submit st d)) \<longrightarrow> snd (challenge_submit st d) = st)
   \<and> (isl (fst (challenge_key_hash st ip h rnd)) \<longrightarrow>
        snd (challenge_key_hash st ip h rnd) = st)
   \<and> (isl (fst (challenge_prize st ip key)) \<longrightarrow> snd (challenge_prize st ip key) = st)"
  by (simp add: submit_cases key_hash_cases prize_cases)

theorem failure_leaves_store_witness:
  "isl (fst (challenge_submit initial_store \<lparr>result = 40\<rparr>))
   \<and> snd (challenge_submit initial_store \<lparr>result = 40\<rparr>) = initial_store
   \<and> isl (fst (challenge_key_hash initial_store ''10.0.0.1''
              \<lparr>nonce = ''abc123'', hash = ''00''\<rparr> (replicate 16 0)))
   \<and> snd (challenge_key_hash initial_store ''10.0.0.1''
              \<lparr>nonce = ''abc123'', hash = ''00''\<rparr> (replicate 16 0)) = initial_store
   \<and> isl (fst (challenge_prize initial_store ''10.0.0.1'' (Some ''k1'')))
   \<and> snd (challenge_prize initial_store ''10.0.0.1'' (Some ''k1'')) = initial_store"
  using failure_leaves_store
    [of initial_store "\<lparr>result = 40\<rparr>" "''10.0.0.1''"
        "\<lparr>nonce = ''abc123'', hash = ''00''\<rparr>" "replicate 16 0" "Some ''k1''"]
  by (simp add: submit_cases key_hash_cases prize_cases initial_store_def)

end
